theory Spec2Isabelle
  imports Main "HOL-Library.Multiset"
begin

section \<open>The demo client of relaydns: \<open>cmd/example_client/main.go\<close>\<close>

text \<open>
  The program parses its flags, starts a local HTTP backend in a goroutine, creates a
  libp2p host and an advertising client through the \<open>relaydns\<close> package, waits for a
  termination signal and leaves. Go strings are byte strings: they are modelled as
  \<^typ>\<open>string\<close>. A \<open>time.Duration\<close> is a number of nanoseconds.
\<close>

subsection \<open>Flags and their defaults (\<open>init\<close>)\<close>

type_synonym duration = int

definition Millisecond :: duration where
  "Millisecond = 1000000"

definition Second :: duration where
  "Second = 1000 * Millisecond"

record flags =
  flagServerURL :: string
  flagBootstraps :: "string list"
  flagRelay :: bool
  flagBackendHTTP :: string
  flagProtocol :: string
  flagTopic :: string
  flagAdvertiseEvery :: duration
  flagName :: string
  flagDNS :: string
  flagPreferQUIC :: bool
  flagPreferLocal :: bool
  flagHTTPTimeout :: duration

text \<open>The default of every flag, as \<open>init\<close> registers it (a nil slice is the empty list).\<close>

definition initFlags :: flags where
  "initFlags =
     \<lparr> flagServerURL = ''http://localhost:8080'',
       flagBootstraps = [],
       flagRelay = True,
       flagBackendHTTP = '':8081'',
       flagProtocol = ''/relaydns/http/1.0'',
       flagTopic = ''relaydns.backends'',
       flagAdvertiseEvery = 3 * Second,
       flagName = ''demo-http'',
       flagDNS = ''demo-http.example'',
       flagPreferQUIC = True,
       flagPreferLocal = True,
       flagHTTPTimeout = 3 * Second \<rparr>"

text \<open>
  A flag given on the command line, with its value already parsed. Setting a flag stores
  the value in its variable; the string-slice flag \<open>--bootstrap\<close> collects the values of
  all its occurrences.
\<close>

datatype flag_arg =
    ArgServerURL string
  | ArgBootstrap "string list"
  | ArgRelay bool
  | ArgBackendHTTP string
  | ArgProtocol string
  | ArgTopic string
  | ArgAdvertiseEvery duration
  | ArgName string
  | ArgDNS string
  | ArgPreferQUIC bool
  | ArgPreferLocal bool
  | ArgHTTPTimeout duration

fun setFlag :: "flags \<Rightarrow> flag_arg \<Rightarrow> flags" where
  "setFlag fl (ArgServerURL v) = fl\<lparr>flagServerURL := v\<rparr>"
| "setFlag fl (ArgBootstrap vs) = fl\<lparr>flagBootstraps := flagBootstraps fl @ vs\<rparr>"
| "setFlag fl (ArgRelay v) = fl\<lparr>flagRelay := v\<rparr>"
| "setFlag fl (ArgBackendHTTP v) = fl\<lparr>flagBackendHTTP := v\<rparr>"
| "setFlag fl (ArgProtocol v) = fl\<lparr>flagProtocol := v\<rparr>"
| "setFlag fl (ArgTopic v) = fl\<lparr>flagTopic := v\<rparr>"
| "setFlag fl (ArgAdvertiseEvery v) = fl\<lparr>flagAdvertiseEvery := v\<rparr>"
| "setFlag fl (ArgName v) = fl\<lparr>flagName := v\<rparr>"
| "setFlag fl (ArgDNS v) = fl\<lparr>flagDNS := v\<rparr>"
| "setFlag fl (ArgPreferQUIC v) = fl\<lparr>flagPreferQUIC := v\<rparr>"
| "setFlag fl (ArgPreferLocal v) = fl\<lparr>flagPreferLocal := v\<rparr>"
| "setFlag fl (ArgHTTPTimeout v) = fl\<lparr>flagHTTPTimeout := v\<rparr>"

definition parseFlags :: "flag_arg list \<Rightarrow> flags" where
  "parseFlags args = foldl setFlag initFlags args"

subsection \<open>\<open>addrToTarget\<close> and the client configuration\<close>

text \<open>
  \<open>s[i]\<close> on a Go string panics when \<open>i\<close> is out of range: \<open>None\<close> is that panic.
\<close>

definition byteAt :: "string \<Rightarrow> nat \<Rightarrow> char option" where
  "byteAt s i = (if i < length s then Some (s ! i) else None)"

text \<open>
  \<^verbatim>\<open>
  func addrToTarget(listen string) string {
      if len(listen) > 0 && listen[0] == ':' {
          return "127.0.0.1" + listen
      }
      return listen
  }
  \<close>
  The second operand of \<open>&&\<close> is evaluated only when the first holds. The result is
  \<open>None\<close> if the function panics.
\<close>

definition addrToTarget :: "string \<Rightarrow> string option" where
  "addrToTarget listen =
     (if length listen > 0
      then (case byteAt listen 0 of
              None \<Rightarrow> None
            | Some b \<Rightarrow> if b = CHR '':'' then Some (''127.0.0.1'' @ listen) else Some listen)
      else Some listen)"

text \<open>
  The \<open>relaydns.ClientConfig\<close> literal that \<open>runClient\<close> passes to \<open>relaydns.NewClient\<close>;
  its only computed field is \<open>TargetTCP\<close>.
\<close>

record ClientConfig =
  Protocol :: string
  Topic :: string
  AdvertiseEvery :: duration
  Name :: string
  DNS :: string
  TargetTCP :: string
  ServerURL :: string
  Bootstraps :: "string list"
  HTTPTimeout :: duration
  PreferQUIC :: bool
  PreferLocal :: bool

definition clientConfig :: "flags \<Rightarrow> ClientConfig option" where
  "clientConfig fl =
     (case addrToTarget (flagBackendHTTP fl) of
        None \<Rightarrow> None
      | Some target \<Rightarrow>
          Some \<lparr> Protocol = flagProtocol fl,
                 Topic = flagTopic fl,
                 AdvertiseEvery = flagAdvertiseEvery fl,
                 Name = flagName fl,
                 DNS = flagDNS fl,
                 TargetTCP = target,
                 ServerURL = flagServerURL fl,
                 Bootstraps = flagBootstraps fl,
                 HTTPTimeout = flagHTTPTimeout fl,
                 PreferQUIC = flagPreferQUIC fl,
                 PreferLocal = flagPreferLocal fl \<rparr>)"

text \<open>
  The host of a \<open>host:port\<close> address: the text in the brackets of a bracketed IPv6 literal,
  otherwise the text before the first colon. A host is a wildcard when it is empty or an
  unspecified address: a listener on it accepts on every interface, and nothing can be
  dialled there.
\<close>

fun hostPart :: "string \<Rightarrow> string" where
  "hostPart [] = []"
| "hostPart (c # cs) =
     (if c = CHR ''['' then takeWhile (\<lambda>x. x \<noteq> CHR '']'') cs
      else takeWhile (\<lambda>x. x \<noteq> CHR '':'') (c # cs))"

definition wildcardHost :: "string \<Rightarrow> bool" where
  "wildcardHost h = (h = [] \<or> h = ''0.0.0.0'' \<or> h = ''::'')"

subsection \<open>Errors\<close>

text \<open>
  A Go \<open>error\<close> is a message, or an error wrapped by \<open>fmt.Errorf("<prefix>%w", err)\<close>, whose
  message is the prefix followed by the message of the wrapped error.
\<close>

datatype error = ErrMsg string | Errorf string error

fun errorString :: "error \<Rightarrow> string" where
  "errorString (ErrMsg m) = m"
| "errorString (Errorf prefix e) = prefix @ errorString e"

subsection \<open>The advertising client behind \<open>relaydns.NewClient\<close>\<close>

text \<open>
  The \<open>relaydns\<close> package (\<open>NewClient\<close>, the client's \<open>Close\<close>, its publisher loop and its
  address selection) is not part of the source at hand: what follows of it is taken from
  the specification.
\<close>

datatype session_state = Created | Joining | Advertising | Closing | Closed

record AdvertiseSession =
  sessState :: session_state
  stopSignalled :: bool
  inFlight :: bool
  releases :: nat

text \<open>Modelled from the spec: step (a) of closing, the publisher loop is told to stop.\<close>

definition signalStop :: "AdvertiseSession \<Rightarrow> AdvertiseSession" where
  "signalStop s = s\<lparr>sessState := Closing, stopSignalled := True\<rparr>"

text \<open>Modelled from the spec: step (b) of closing, the publish cycle in flight finishes.\<close>

definition awaitCycle :: "AdvertiseSession \<Rightarrow> AdvertiseSession" where
  "awaitCycle s = s\<lparr>inFlight := False\<rparr>"

text \<open>
  Modelled from the spec: step (c) of closing, the topic and overlay resources are
  released; \<open>releases\<close> counts how often that has happened.
\<close>

definition releaseResources :: "AdvertiseSession \<Rightarrow> AdvertiseSession" where
  "releaseResources s = s\<lparr>sessState := Closed, releases := Suc (releases s)\<rparr>"

text \<open>
  Modelled from the spec: the teardown of the missing \<open>relaydns\<close> client, triggered by
  \<open>Close\<close> or by the top-level cancellation signal; on a closed session it does nothing.
\<close>

definition teardown :: "AdvertiseSession \<Rightarrow> AdvertiseSession" where
  "teardown s =
     (if sessState s = Closed then s
      else releaseResources (awaitCycle (signalStop s)))"

text \<open>
  Modelled from the spec: \<open>Close\<close> of the missing \<open>relaydns\<close> client; it returns the session
  after the call and the error it reports, if any.
\<close>

definition Close :: "AdvertiseSession \<Rightarrow> AdvertiseSession \<times> error option" where
  "Close s = (teardown s, None)"

text \<open>
  Modelled from the spec: the session that a successful call of the missing \<open>NewClient\<close>
  leaves behind. The constructor schedules the publisher loop, so the session is
  \<open>Advertising\<close>, with nothing released.
\<close>

definition newSession :: AdvertiseSession where
  "newSession =
     \<lparr> sessState = Advertising, stopSignalled = False, inFlight = False, releases = 0 \<rparr>"

subsection \<open>The Address Preference Selector\<close>






subsection \<open>The world around one run\<close>

record Host =
  hostID :: string
  hostAddrs :: "string list"

text \<open>
  The \<open>go\<close> statement only spawns the backend goroutine; when it runs is up to the
  scheduler. These are the moments of the main goroutine at which the backend goroutine
  may make a step: before \<open>MakeHost\<close> is called, before \<open>NewClient\<close> is called, and while
  \<open>runClient\<close> waits for the signal.
\<close>

datatype moment = BeforeMakeHost | BeforeNewClient | WhileWaiting

text \<open>
  What a run meets outside the program: at which moment the backend goroutine gets to
  call \<open>http.ListenAndServe\<close> (\<open>None\<close>: not during the run), whether and when that call
  returns (it returns only with an error, at once when it cannot bind; \<open>None\<close>: it serves
  until the process ends), what \<open>relaydns.MakeHost\<close> and \<open>relaydns.NewClient\<close> answer (their
  first argument tells whether the context they are given is cancelled already), and
  whether SIGINT or SIGTERM is ever delivered.
\<close>

record env =
  backendStart :: "moment option"
  listenAndServe :: "(moment \<times> error) option"
  MakeHost :: "bool \<Rightarrow> nat \<Rightarrow> bool \<Rightarrow> error + Host"
  NewClient :: "bool \<Rightarrow> Host \<Rightarrow> ClientConfig \<Rightarrow> error option"
  signalArrives :: bool

text \<open>
  Whether, by moment \<open>m\<close>, the backend goroutine has called \<open>ListenAndServe\<close>, and whether
  it has cancelled the root context (which it does when a call it has made returns).
\<close>

fun upTo :: "moment \<Rightarrow> moment list" where
  "upTo BeforeMakeHost = [BeforeMakeHost]"
| "upTo BeforeNewClient = [BeforeMakeHost, BeforeNewClient]"
| "upTo WhileWaiting = [BeforeMakeHost, BeforeNewClient, WhileWaiting]"

definition startedBy :: "env \<Rightarrow> moment \<Rightarrow> bool" where
  "startedBy en m =
     (case backendStart en of None \<Rightarrow> False | Some m' \<Rightarrow> m' \<in> set (upTo m))"

definition cancelledBy :: "env \<Rightarrow> moment \<Rightarrow> bool" where
  "cancelledBy en m =
     (case listenAndServe en of
        None \<Rightarrow> False
      | Some (m', err) \<Rightarrow> m' \<in> set (upTo m) \<and> startedBy en m')"

subsection \<open>\<open>runClient\<close> and \<open>main\<close>\<close>

datatype event =
    EvGoBackend
  | EvMakeHost bool nat bool
  | EvNewClient bool ClientConfig
  | EvLogInfo string
  | EvLogError error string
  | EvListenAndServe string
  | EvNotify
  | EvSignal
  | EvSleep duration
  | EvReturn "error option"
  | EvPanic
  | EvClose
  | EvCancel
  | EvLogFatal error string

datatype deferred = DeferCancel | DeferClose

text \<open>
  The backend goroutine: not spawned yet, spawned but not yet run, inside
  \<open>http.ListenAndServe\<close>, or ended.
\<close>

datatype goroutine = NotSpawned | Spawned | InListenAndServe | Ended

text \<open>
  The state of a run: what the main goroutine has done (\<open>trace\<close>), what the backend
  goroutine has done (\<open>backendLog\<close>), the deferred calls of \<open>runClient\<close> (last deferred
  first), whether the root context is cancelled, where the backend goroutine is, and the
  client once it is constructed (its session as the calls of \<open>runClient\<close> leave it).
\<close>

record state =
  trace :: "event list"
  backendLog :: "event list"
  defers :: "deferred list"
  ctxDone :: bool
  backend :: goroutine
  client :: "AdvertiseSession option"

definition initState :: state where
  "initState =
     \<lparr> trace = [], backendLog = [], defers = [], ctxDone = False,
       backend = NotSpawned, client = None \<rparr>"

definition backendServing :: "state \<Rightarrow> bool" where
  "backendServing st = (backend st = InListenAndServe)"

definition emit :: "event \<Rightarrow> state \<Rightarrow> state" where
  "emit e st = st\<lparr>trace := trace st @ [e]\<rparr>"

definition deferCall :: "deferred \<Rightarrow> state \<Rightarrow> state" where
  "deferCall d st = st\<lparr>defers := d # defers st\<rparr>"

text \<open>\<open>cancel()\<close>: the root context is done.\<close>

definition cancel :: "state \<Rightarrow> state" where
  "cancel st = st\<lparr>ctxDone := True\<rparr>"

fun runDeferred :: "deferred \<Rightarrow> state \<Rightarrow> state" where
  "runDeferred DeferCancel st = cancel (emit EvCancel st)"
| "runDeferred DeferClose st =
     (emit EvClose st)\<lparr>client := map_option (\<lambda>c. fst (Close c)) (client st)\<rparr>"

text \<open>
  How \<open>runClient\<close> ends: it blocks for ever, it returns (an error or \<open>nil\<close>), or it panics.
\<close>

datatype ending = Blocked | Returned "error option" | Panicked

record run =
  final :: state
  ending :: ending

text \<open>A \<open>return\<close>: the deferred calls run, last deferred first, then the caller resumes.\<close>

definition returnWith :: "error option \<Rightarrow> state \<Rightarrow> run" where
  "returnWith r st =
     \<lparr> final = (fold runDeferred (defers st) (emit (EvReturn r) st))\<lparr>defers := []\<rparr>,
       ending = Returned r \<rparr>"

text \<open>A panic runs the deferred calls too, then the process crashes.\<close>

definition panicWith :: "state \<Rightarrow> run" where
  "panicWith st =
     \<lparr> final = (fold runDeferred (defers st) (emit EvPanic st))\<lparr>defers := []\<rparr>,
       ending = Panicked \<rparr>"

text \<open>\<open><-sig\<close> when no signal is ever delivered: \<open>runClient\<close> does not return.\<close>

definition blockForever :: "state \<Rightarrow> run" where
  "blockForever st = \<lparr> final = st, ending = Blocked \<rparr>"

text \<open>The \<open>go\<close> statement of line 66: the backend goroutine is spawned, nothing of it has run.\<close>

definition goBackend :: "state \<Rightarrow> state" where
  "goBackend st = (emit EvGoBackend st)\<lparr>backend := Spawned\<rparr>"

text \<open>
  The body of the goroutine, lines 67 to 89. When it gets to run it logs its line and calls
  \<open>http.ListenAndServe(flagBackendHTTP, mux)\<close>, which is given no context.
\<close>

definition backendEnter :: "flags \<Rightarrow> env \<Rightarrow> moment \<Rightarrow> state \<Rightarrow> state" where
  "backendEnter fl en m st =
     (if backendStart en = Some m \<and> backend st = Spawned
      then st\<lparr>backendLog := backendLog st @
                  [EvLogInfo (''[client] local backend http '' @ flagBackendHTTP fl),
                   EvListenAndServe (flagBackendHTTP fl)],
              backend := InListenAndServe\<rparr>
      else st)"

text \<open>
  When the call of \<open>ListenAndServe\<close> returns its error, the goroutine logs it, calls
  \<open>cancel()\<close> and ends. A call that has not been made cannot return.
\<close>

definition backendFail :: "env \<Rightarrow> moment \<Rightarrow> state \<Rightarrow> state" where
  "backendFail en m st =
     (case listenAndServe en of
        None \<Rightarrow> st
      | Some (m', err) \<Rightarrow>
          if m' = m \<and> backend st = InListenAndServe
          then cancel (st\<lparr>backendLog := backendLog st @
                              [EvLogError err ''[client] http backend error'', EvCancel],
                          backend := Ended\<rparr>)
          else st)"

text \<open>What the backend goroutine does at moment \<open>m\<close>.\<close>

definition backendStep :: "flags \<Rightarrow> env \<Rightarrow> moment \<Rightarrow> state \<Rightarrow> state" where
  "backendStep fl en m st = backendFail en m (backendEnter fl en m st)"

text \<open>Lines 117 to 123: the host's addresses, or its peer id when it has none yet.\<close>

definition logHost :: "Host \<Rightarrow> state \<Rightarrow> state" where
  "logHost h st =
     (if length (hostAddrs h) > 0
      then fold (\<lambda>a. emit (EvLogInfo (''[client] host addr: '' @ a @ ''/p2p/'' @ hostID h)))
             (hostAddrs h) st
      else emit (EvLogInfo (''[client] host peer: '' @ hostID h @ '' (no listen addrs yet)''))
             st)"

text \<open>
  \<open>runClient\<close>, lines 61 to 132. The arguments of \<open>NewClient\<close> are evaluated before the
  call, \<open>addrToTarget\<close> among them.
\<close>

definition runClient :: "flags \<Rightarrow> env \<Rightarrow> run" where
  "runClient fl en =
     (let s1 = backendStep fl en BeforeMakeHost (goBackend (deferCall DeferCancel initState));
          s1' = emit (EvMakeHost (ctxDone s1) 0 (flagRelay fl)) s1
      in case MakeHost en (ctxDone s1) 0 (flagRelay fl) of
           Inl err \<Rightarrow> returnWith (Some (Errorf ''make host: '' err)) s1'
         | Inr h \<Rightarrow>
             (let s2 = backendStep fl en BeforeNewClient s1'
              in case clientConfig fl of
                   None \<Rightarrow> panicWith s2
                 | Some cfg \<Rightarrow>
                     (let s2' = emit (EvNewClient (ctxDone s2) cfg) s2
                      in case NewClient en (ctxDone s2) h cfg of
                           Some err \<Rightarrow> returnWith (Some (Errorf ''new client: '' err)) s2'
                         | None \<Rightarrow>
                             (let s3 = deferCall DeferClose (s2'\<lparr>client := Some newSession\<rparr>);
                                  s4 = backendStep fl en WhileWaiting
                                         (emit EvNotify (logHost h s3))
                              in if signalArrives en
                                 then returnWith None
                                        (emit (EvSleep (200 * Millisecond))
                                           (emit (EvLogInfo ''[client] shutting down'')
                                              (emit EvSignal s4)))
                                 else blockForever s4))))"

text \<open>
  \<open>main\<close>, lines 55 to 59: an error of the root command goes to \<open>log.Fatal\<close>, which ends the
  process with status 1; a run without error ends with status 0, a panic with status 2;
  \<open>None\<close>: the process does not end by itself.
\<close>

definition main :: "flag_arg list \<Rightarrow> env \<Rightarrow> run \<times> int option" where
  "main args en =
     (let r = runClient (parseFlags args) en
      in case ending r of
           Blocked \<Rightarrow> (r, None)
         | Panicked \<Rightarrow> (r, Some 2)
         | Returned None \<Rightarrow> (r, Some 0)
         | Returned (Some err) \<Rightarrow>
             (r\<lparr>final := emit (EvLogFatal err ''execute root command'') (final r)\<rparr>, Some 1))"

text \<open>
  Modelled from the spec: the reaction of the missing \<open>relaydns\<close> client to its context.
  \<open>runClient\<close> gives the root context to \<open>NewClient\<close>, and by the spec the top-level
  cancellation signal triggers the same teardown as \<open>Close\<close>: the session as the client has
  it is the one \<open>runClient\<close>'s calls left, torn down once the context is done.
\<close>

definition liveSession :: "state \<Rightarrow> AdvertiseSession option" where
  "liveSession st = map_option (\<lambda>s. if ctxDone st then teardown s else s) (client st)"

text \<open>
  Modelled from the spec: the publisher loop of the missing \<open>relaydns\<close> client is running,
  that is, there is a client and its session is \<open>Advertising\<close>.
\<close>

definition advertising :: "state \<Rightarrow> bool" where
  "advertising st =
     (case liveSession st of None \<Rightarrow> False | Some s \<Rightarrow> sessState s = Advertising)"

subsection \<open>Sample worlds\<close>

definition sampleHost :: Host where
  "sampleHost = \<lparr> hostID = ''12D3KooWPeer'', hostAddrs = [''/ip4/127.0.0.1/udp/4001/quic-v1''] \<rparr>"

text \<open>
  A world in which everything works: the backend goroutine runs at once and serves, and a
  signal is delivered.
\<close>

definition calmEnv :: env where
  "calmEnv =
     \<lparr> backendStart = Some BeforeMakeHost,
       listenAndServe = None,
       MakeHost = (\<lambda>cancelled port relay. Inr sampleHost),
       NewClient = (\<lambda>cancelled h cfg. None),
       signalArrives = True \<rparr>"

text \<open>
  The port of the backend is taken, so \<open>ListenAndServe\<close> returns at once, and no signal is
  delivered; the library accepts a cancelled context.
\<close>

definition bindError :: error where
  "bindError = ErrMsg ''listen tcp :8081: bind: address already in use''"

definition portTakenEnv :: env where
  "portTakenEnv =
     calmEnv \<lparr> listenAndServe := Some (BeforeMakeHost, bindError), signalArrives := False \<rparr>"

text \<open>The same, with a library that refuses a cancelled context.\<close>

definition refusingEnv :: env where
  "refusingEnv =
     portTakenEnv
       \<lparr> NewClient := (\<lambda>cancelled h cfg.
                          if cancelled then Some (ErrMsg ''context canceled'') else None) \<rparr>"

definition refusingHostEnv :: env where
  "refusingHostEnv =
     portTakenEnv
       \<lparr> MakeHost := (\<lambda>cancelled port relay.
                         if cancelled then Inl (ErrMsg ''context canceled'')
                         else Inr sampleHost) \<rparr>"

definition noHostEnv :: env where
  "noHostEnv = calmEnv \<lparr> MakeHost := (\<lambda>cancelled port relay. Inl (ErrMsg ''no transport'')) \<rparr>"

definition noClientEnv :: env where
  "noClientEnv = calmEnv \<lparr> NewClient := (\<lambda>cancelled h cfg. Some (ErrMsg ''join topic'')) \<rparr>"

definition sampleSession :: AdvertiseSession where
  "sampleSession = newSession"







subsection \<open>The stages of a run\<close>

text \<open>
  The state of \<open>runClient\<close> when \<open>MakeHost\<close> has been called, when \<open>NewClient\<close> has been
  called, and when it starts to wait for the signal; \<open>hostLines\<close> are the log lines of
  lines 117 to 123.
\<close>

definition atMakeHost :: "flags \<Rightarrow> env \<Rightarrow> state" where
  "atMakeHost fl en =
     emit (EvMakeHost (cancelledBy en BeforeMakeHost) 0 (flagRelay fl))
       (backendStep fl en BeforeMakeHost (goBackend (deferCall DeferCancel initState)))"

definition atNewClient :: "flags \<Rightarrow> env \<Rightarrow> ClientConfig \<Rightarrow> state" where
  "atNewClient fl en cfg =
     emit (EvNewClient (cancelledBy en BeforeNewClient) cfg)
       (backendStep fl en BeforeNewClient (atMakeHost fl en))"

definition atWait :: "flags \<Rightarrow> env \<Rightarrow> ClientConfig \<Rightarrow> Host \<Rightarrow> state" where
  "atWait fl en cfg h =
     backendStep fl en WhileWaiting
       (emit EvNotify
          (logHost h
             (deferCall DeferClose ((atNewClient fl en cfg)\<lparr>client := Some newSession\<rparr>))))"

text \<open>What the backend goroutine has logged by moment \<open>m\<close>.\<close>

definition backendLines :: "flags \<Rightarrow> env \<Rightarrow> moment \<Rightarrow> event list" where
  "backendLines fl en m =
     (if startedBy en m
      then [EvLogInfo (''[client] local backend http '' @ flagBackendHTTP fl),
            EvListenAndServe (flagBackendHTTP fl)]
      else []) @
     (case listenAndServe en of
        None \<Rightarrow> []
      | Some (m', err) \<Rightarrow>
          if cancelledBy en m then [EvLogError err ''[client] http backend error'', EvCancel]
          else [])"

definition backendAt :: "env \<Rightarrow> moment \<Rightarrow> goroutine" where
  "backendAt en m =
     (if cancelledBy en m then Ended
      else if startedBy en m then InListenAndServe
      else Spawned)"

definition hostLines :: "Host \<Rightarrow> event list" where
  "hostLines h =
     (if length (hostAddrs h) > 0
      then map (\<lambda>a. EvLogInfo (''[client] host addr: '' @ a @ ''/p2p/'' @ hostID h))
             (hostAddrs h)
      else [EvLogInfo (''[client] host peer: '' @ hostID h @ '' (no listen addrs yet)'')])"

text \<open>
  A state agrees with the world at moment \<open>m\<close>: its context, its backend goroutine and the
  backend's log are what the schedule of the backend goroutine gives by that moment.
\<close>

definition inWorld :: "flags \<Rightarrow> env \<Rightarrow> moment \<Rightarrow> state \<Rightarrow> bool" where
  "inWorld fl en m st \<longleftrightarrow>
     ctxDone st = cancelledBy en m \<and> backend st = backendAt en m \<and>
     backendLog st = backendLines fl en m"

section \<open>Properties\<close>

subsection \<open>The target address\<close>

lemma addrToTarget_some: "\<exists>t. addrToTarget s = Some t"
  by (cases s) (simp_all add: addrToTarget_def byteAt_def)

lemma addrToTarget_colon: "addrToTarget (CHR '':'' # port) = Some (''127.0.0.1:'' @ port)"
  by (simp add: addrToTarget_def byteAt_def)

lemma addrToTarget_other: "c \<noteq> CHR '':'' \<Longrightarrow> addrToTarget (c # cs) = Some (c # cs)"
  by (simp add: addrToTarget_def byteAt_def)

lemma clientConfig_target:
  "map_option TargetTCP (clientConfig fl) = addrToTarget (flagBackendHTTP fl)"
  by (simp add: clientConfig_def split: option.splits)

lemma clientConfig_some: "\<exists>cfg. clientConfig fl = Some cfg"
  using addrToTarget_some[of "flagBackendHTTP fl"] by (auto simp add: clientConfig_def)

lemma clientConfig_default:
  "clientConfig (parseFlags []) =
     Some \<lparr> Protocol = ''/relaydns/http/1.0'', Topic = ''relaydns.backends'',
            AdvertiseEvery = 3000000000, Name = ''demo-http'', DNS = ''demo-http.example'',
            TargetTCP = ''127.0.0.1:8081'', ServerURL = ''http://localhost:8080'',
            Bootstraps = [], HTTPTimeout = 3000000000, PreferQUIC = True,
            PreferLocal = True \<rparr>"
  by (simp add: parseFlags_def initFlags_def clientConfig_def addrToTarget_def byteAt_def
      Second_def Millisecond_def)

text \<open>
  Claim C1. A listen address that begins with a colon (the form \<open>:port\<close>) is normalized to
  \<open>127.0.0.1:port\<close>; an address that has a host already (it is not empty and does not begin
  with a colon) is passed through unchanged; and the result is the target address of the
  configuration given to the client.
\<close>

theorem addrToTarget_normalizes:
  "(listen = CHR '':'' # port \<longrightarrow> addrToTarget listen = Some (''127.0.0.1:'' @ port)) \<and>
   (listen \<noteq> [] \<and> hd listen \<noteq> CHR '':'' \<longrightarrow> addrToTarget listen = Some listen) \<and>
   map_option TargetTCP (clientConfig fl) = addrToTarget (flagBackendHTTP fl)"
  by (cases listen) (simp_all add: addrToTarget_colon addrToTarget_other clientConfig_target)

theorem addrToTarget_normalizes_witness:
  "addrToTarget '':8081'' = Some ''127.0.0.1:8081'' \<and>
   addrToTarget ''0.0.0.0:9000'' = Some ''0.0.0.0:9000'' \<and>
   map_option TargetTCP (clientConfig initFlags) = addrToTarget '':8081''"
  using addrToTarget_normalizes[of "'':8081''" "''8081''" initFlags]
    addrToTarget_normalizes[of "''0.0.0.0:9000''"]
  by (simp add: initFlags_def)

text \<open>
  Claim C2, as amended. The target address has a wildcard host exactly when the listen
  address does not begin with a colon and names a wildcard host itself (or is empty): only
  the form \<open>:port\<close> is given the concrete host \<open>127.0.0.1\<close>, every other address is kept as
  it is.
\<close>

theorem target_wildcard_iff:
  "addrToTarget listen = Some t \<Longrightarrow>
   wildcardHost (hostPart t) \<longleftrightarrow>
     (listen = [] \<or> hd listen \<noteq> CHR '':'') \<and> wildcardHost (hostPart listen)"
  by (cases listen) (auto simp add: addrToTarget_def byteAt_def wildcardHost_def split: if_splits)

theorem target_wildcard_iff_witness:
  "addrToTarget '':8081'' = Some ''127.0.0.1:8081'' \<and>
   \<not> wildcardHost (hostPart ''127.0.0.1:8081'') \<and>
   wildcardHost (hostPart '':8081'')"
proof -
  have a: "addrToTarget '':8081'' = Some ''127.0.0.1:8081''"
    by (simp add: addrToTarget_def byteAt_def)
  show ?thesis
    using a target_wildcard_iff[OF a] by (simp add: wildcardHost_def)
qed

text \<open>
  The claim as stated (the target address never has a wildcard host) fails for the listen
  address \<open>0.0.0.0:9000\<close>.
\<close>

theorem target_wildcard_counterexample:
  "map_option TargetTCP (clientConfig (parseFlags [ArgBackendHTTP ''0.0.0.0:9000''])) =
     Some ''0.0.0.0:9000'' \<and>
   wildcardHost (hostPart ''0.0.0.0:9000'')"
  by (simp add: parseFlags_def initFlags_def clientConfig_def addrToTarget_def byteAt_def
      wildcardHost_def)

text \<open>
  Claim C8. \<open>addrToTarget\<close> never panics and validates nothing: the result is
  \<open>"127.0.0.1" + s\<close> when \<open>s\<close> is not empty and its first byte is a colon, and \<open>s\<close>
  otherwise; the empty string gives the empty string, and a string that is no address, such
  as \<open>foo\<close>, becomes the target address of the client configuration as it is.
\<close>

theorem addrToTarget_total_exact:
  "(\<exists>t. addrToTarget s = Some t) \<and>
   addrToTarget s = Some (if s \<noteq> [] \<and> hd s = CHR '':'' then ''127.0.0.1'' @ s else s) \<and>
   addrToTarget [] = Some [] \<and>
   map_option TargetTCP (clientConfig (fl\<lparr>flagBackendHTTP := ''foo''\<rparr>)) = Some ''foo''"
  by (cases s) (simp_all add: addrToTarget_def byteAt_def clientConfig_def)

theorem addrToTarget_total_exact_witness:
  "addrToTarget '':x'' = Some ''127.0.0.1:x'' \<and> addrToTarget ''x:'' = Some ''x:'' \<and>
   map_option TargetTCP (clientConfig (initFlags\<lparr>flagBackendHTTP := ''foo''\<rparr>)) = Some ''foo''"
  using addrToTarget_total_exact[of "'':x''" initFlags] addrToTarget_total_exact[of "''x:''"]
  by simp

text \<open>
  Claim C10. Without flags the program runs with the server URL \<open>http://localhost:8080\<close>,
  no static bootstrap address, relay enabled, the backend listening on \<open>:8081\<close> (target
  \<open>127.0.0.1:8081\<close>), protocol \<open>/relaydns/http/1.0\<close>, topic \<open>relaydns.backends\<close>, an
  advertise interval of 3 s, prefer-QUIC and prefer-local both true, and a health-fetch
  timeout of 3 s.
\<close>

theorem defaults_without_flags:
  "flagServerURL (parseFlags []) = ''http://localhost:8080'' \<and>
   flagBootstraps (parseFlags []) = [] \<and>
   flagRelay (parseFlags []) \<and>
   flagBackendHTTP (parseFlags []) = '':8081'' \<and>
   Second = 1000000000 \<and>
   clientConfig (parseFlags []) =
     Some \<lparr> Protocol = ''/relaydns/http/1.0'', Topic = ''relaydns.backends'',
            AdvertiseEvery = 3 * Second, Name = ''demo-http'', DNS = ''demo-http.example'',
            TargetTCP = ''127.0.0.1:8081'', ServerURL = ''http://localhost:8080'',
            Bootstraps = [], HTTPTimeout = 3 * Second, PreferQUIC = True,
            PreferLocal = True \<rparr>"
  by (simp add: parseFlags_def initFlags_def clientConfig_def addrToTarget_def byteAt_def
      Second_def Millisecond_def)

theorem defaults_without_flags_witness:
  "map_option TargetTCP (clientConfig (parseFlags [])) = Some ''127.0.0.1:8081'' \<and>
   map_option AdvertiseEvery (clientConfig (parseFlags [])) = Some 3000000000"
  using defaults_without_flags by simp

subsection \<open>The client's session and the address selector\<close>

lemma teardown_closed [simp]: "sessState (teardown s) = Closed"
  by (simp add: teardown_def releaseResources_def)

lemma teardown_idem [simp]: "teardown (teardown s) = teardown s"
  by (simp add: teardown_def releaseResources_def)

lemma newSession_state [simp]: "sessState newSession = Advertising"
  by (simp add: newSession_def)

lemma advertising_cancelled: "ctxDone st \<Longrightarrow> \<not> advertising st"
  by (cases "client st") (simp_all add: advertising_def liveSession_def)

lemma advertising_no_client: "client st = None \<Longrightarrow> \<not> advertising st"
  by (simp add: advertising_def liveSession_def)

text \<open>
  Claim C7. A second \<open>Close\<close> on the same session reports no error, leaves the session as
  the first \<open>Close\<close> left it, and releases nothing again.
\<close>

theorem Close_idempotent:
  "snd (Close (fst (Close s))) = None \<and>
   fst (Close (fst (Close s))) = fst (Close s) \<and>
   releases (fst (Close (fst (Close s)))) = releases (fst (Close s)) \<and>
   sessState (fst (Close s)) = Closed"
  by (simp add: Close_def)

theorem Close_idempotent_witness:
  "releases (fst (Close sampleSession)) = 1 \<and>
   releases (fst (Close (fst (Close sampleSession)))) = 1 \<and>
   snd (Close (fst (Close sampleSession))) = None"
  using Close_idempotent[of sampleSession]
  by (simp add: Close_def sampleSession_def newSession_def teardown_def releaseResources_def
      awaitCycle_def signalStop_def)






subsection \<open>Runs of \<open>runClient\<close>\<close>

lemma trace_emit [simp]: "trace (emit e st) = trace st @ [e]"
  by (simp add: emit_def)

lemma emit_fields [simp]:
  "backendLog (emit e st) = backendLog st" "defers (emit e st) = defers st"
  "ctxDone (emit e st) = ctxDone st" "backend (emit e st) = backend st"
  "client (emit e st) = client st"
  by (simp_all add: emit_def)

lemma cancel_fields [simp]:
  "trace (cancel st) = trace st" "backendLog (cancel st) = backendLog st"
  "defers (cancel st) = defers st" "ctxDone (cancel st)"
  "backend (cancel st) = backend st" "client (cancel st) = client st"
  by (simp_all add: cancel_def)

lemma deferCall_fields [simp]:
  "trace (deferCall d st) = trace st" "backendLog (deferCall d st) = backendLog st"
  "defers (deferCall d st) = d # defers st" "ctxDone (deferCall d st) = ctxDone st"
  "backend (deferCall d st) = backend st" "client (deferCall d st) = client st"
  by (simp_all add: deferCall_def)

lemma goBackend_fields [simp]:
  "trace (goBackend st) = trace st @ [EvGoBackend]"
  "defers (goBackend st) = defers st" "ctxDone (goBackend st) = ctxDone st"
  "backend (goBackend st) = Spawned" "client (goBackend st) = client st"
  "backendLog (goBackend st) = backendLog st"
  by (simp_all add: goBackend_def)

lemma backendStep_fields [simp]:
  "trace (backendStep fl en m st) = trace st" "defers (backendStep fl en m st) = defers st"
  "client (backendStep fl en m st) = client st"
  by (simp_all add: backendStep_def backendFail_def backendEnter_def
      split: option.splits prod.splits)

lemma runDeferred_backend [simp]: "backend (runDeferred d st) = backend st"
  by (cases d) simp_all

lemma upTo_cases:
  "m' \<in> set (upTo BeforeMakeHost) \<longleftrightarrow> m' = BeforeMakeHost"
  "m' \<in> set (upTo BeforeNewClient) \<longleftrightarrow> m' = BeforeMakeHost \<or> m' = BeforeNewClient"
  "m' \<in> set (upTo WhileWaiting)"
  by (cases m'; simp)+

lemma first_world:
  "ctxDone (backendStep fl en BeforeMakeHost (goBackend (deferCall DeferCancel initState))) =
     cancelledBy en BeforeMakeHost"
  "backend (backendStep fl en BeforeMakeHost (goBackend (deferCall DeferCancel initState))) =
     backendAt en BeforeMakeHost"
  "backendLog (backendStep fl en BeforeMakeHost (goBackend (deferCall DeferCancel initState))) =
     backendLines fl en BeforeMakeHost"
  by (auto simp add: backendStep_def backendFail_def backendEnter_def cancelledBy_def
      startedBy_def backendAt_def backendLines_def initState_def upTo_cases
      split: option.splits prod.splits)

lemma inWorld_first:
  "inWorld fl en BeforeMakeHost
     (backendStep fl en BeforeMakeHost (goBackend (deferCall DeferCancel initState)))"
  by (simp add: inWorld_def first_world)

lemma inWorld_second:
  assumes "inWorld fl en BeforeMakeHost st"
  shows "inWorld fl en BeforeNewClient (backendStep fl en BeforeNewClient st)"
  using assms
  by (cases "backendStart en"; cases "listenAndServe en")
    (auto simp add: inWorld_def backendStep_def backendFail_def backendEnter_def cancelledBy_def
      startedBy_def backendAt_def backendLines_def upTo_cases
      split: prod.splits if_splits)

lemma inWorld_third:
  assumes "inWorld fl en BeforeNewClient st"
  shows "inWorld fl en WhileWaiting (backendStep fl en WhileWaiting st)"
  using assms
  by (cases "backendStart en"; cases "listenAndServe en")
    (auto simp add: inWorld_def backendStep_def backendFail_def backendEnter_def cancelledBy_def
      startedBy_def backendAt_def backendLines_def upTo_cases
      split: prod.splits if_splits moment.splits)

lemma inWorld_emit [simp]: "inWorld fl en m (emit e st) = inWorld fl en m st"
  by (simp add: inWorld_def)

lemma inWorld_atMakeHost: "inWorld fl en BeforeMakeHost (atMakeHost fl en)"
  by (simp add: atMakeHost_def inWorld_first)

lemma inWorld_atNewClient: "inWorld fl en BeforeNewClient (atNewClient fl en cfg)"
  by (simp add: atNewClient_def inWorld_second inWorld_atMakeHost)

lemma inWorld_update [simp]:
  "inWorld fl en m (st\<lparr>client := c\<rparr>) = inWorld fl en m st"
  "inWorld fl en m (deferCall d st) = inWorld fl en m st"
  by (simp_all add: inWorld_def)

lemma trace_fold_emit: "trace (fold (\<lambda>a. emit (f a)) as st) = trace st @ map f as"
  by (induction as arbitrary: st) simp_all

lemma fold_emit_fields:
  "backendLog (fold (\<lambda>a. emit (f a)) as st) = backendLog st"
  "defers (fold (\<lambda>a. emit (f a)) as st) = defers st"
  "ctxDone (fold (\<lambda>a. emit (f a)) as st) = ctxDone st"
  "backend (fold (\<lambda>a. emit (f a)) as st) = backend st"
  "client (fold (\<lambda>a. emit (f a)) as st) = client st"
  by (induction as arbitrary: st) simp_all

lemma logHost_fields [simp]:
  "trace (logHost h st) = trace st @ hostLines h"
  "backendLog (logHost h st) = backendLog st" "defers (logHost h st) = defers st"
  "ctxDone (logHost h st) = ctxDone st" "backend (logHost h st) = backend st"
  "client (logHost h st) = client st"
  by (simp_all add: logHost_def hostLines_def trace_fold_emit fold_emit_fields)

lemma inWorld_logHost [simp]: "inWorld fl en m (logHost h st) = inWorld fl en m st"
  by (simp add: inWorld_def)

lemma inWorld_atWait: "inWorld fl en WhileWaiting (atWait fl en cfg h)"
  by (simp add: atWait_def inWorld_third inWorld_atNewClient)

lemma hostLines_info: "e \<in> set (hostLines h) \<Longrightarrow> \<exists>m. e = EvLogInfo m"
  by (auto simp add: hostLines_def split: if_splits)

lemma hostLines_no_close: "EvClose \<notin> set (hostLines h)"
  using hostLines_info by blast

lemma takeWhile_hostLines:
  "takeWhile (\<lambda>e. e \<noteq> EvSignal) (hostLines h @ rest) =
     hostLines h @ takeWhile (\<lambda>e. e \<noteq> EvSignal) rest"
  by (rule takeWhile_append2) (use hostLines_info in fastforce)

lemma dropWhile_hostLines:
  "dropWhile (\<lambda>e. e \<noteq> EvSignal) (hostLines h @ rest) = dropWhile (\<lambda>e. e \<noteq> EvSignal) rest"
  by (rule dropWhile_append2) (use hostLines_info in fastforce)

lemma ctxDone_first:
  "ctxDone (backendStep fl en BeforeMakeHost (goBackend (deferCall DeferCancel initState))) =
     cancelledBy en BeforeMakeHost"
  by (rule first_world)

lemma ctxDone_second:
  "ctxDone (backendStep fl en BeforeNewClient
       (emit ev (backendStep fl en BeforeMakeHost (goBackend (deferCall DeferCancel initState))))) =
     cancelledBy en BeforeNewClient"
  using inWorld_second[of fl en "emit ev (backendStep fl en BeforeMakeHost
      (goBackend (deferCall DeferCancel initState)))"]
  by (simp add: inWorld_first) (simp add: inWorld_def)

lemma runClient_host_fails:
  assumes "MakeHost en (cancelledBy en BeforeMakeHost) 0 (flagRelay fl) = Inl e"
  shows "runClient fl en = returnWith (Some (Errorf ''make host: '' e)) (atMakeHost fl en)"
  using assms by (simp add: runClient_def Let_def ctxDone_first atMakeHost_def)

lemma runClient_client_fails:
  assumes "MakeHost en (cancelledBy en BeforeMakeHost) 0 (flagRelay fl) = Inr h"
    and "clientConfig fl = Some cfg"
    and "NewClient en (cancelledBy en BeforeNewClient) h cfg = Some e"
  shows "runClient fl en = returnWith (Some (Errorf ''new client: '' e)) (atNewClient fl en cfg)"
  using assms
  by (simp add: runClient_def Let_def ctxDone_first ctxDone_second atMakeHost_def atNewClient_def)

lemma runClient_advertising:
  assumes "MakeHost en (cancelledBy en BeforeMakeHost) 0 (flagRelay fl) = Inr h"
    and "clientConfig fl = Some cfg"
    and "NewClient en (cancelledBy en BeforeNewClient) h cfg = None"
  shows "runClient fl en =
     (if signalArrives en
      then returnWith None
             (emit (EvSleep (200 * Millisecond))
                (emit (EvLogInfo ''[client] shutting down'')
                   (emit EvSignal (atWait fl en cfg h))))
      else blockForever (atWait fl en cfg h))"
  using assms
  by (simp add: runClient_def Let_def ctxDone_first ctxDone_second atMakeHost_def atNewClient_def
      atWait_def)

lemma atMakeHost_fields:
  "trace (atMakeHost fl en) =
     [EvGoBackend, EvMakeHost (cancelledBy en BeforeMakeHost) 0 (flagRelay fl)]"
  "defers (atMakeHost fl en) = [DeferCancel]"
  "client (atMakeHost fl en) = None"
  by (simp_all add: atMakeHost_def initState_def)

lemma atNewClient_fields:
  "trace (atNewClient fl en cfg) =
     [EvGoBackend, EvMakeHost (cancelledBy en BeforeMakeHost) 0 (flagRelay fl),
      EvNewClient (cancelledBy en BeforeNewClient) cfg]"
  "defers (atNewClient fl en cfg) = [DeferCancel]"
  "client (atNewClient fl en cfg) = None"
  by (simp_all add: atNewClient_def atMakeHost_fields)

lemma atWait_fields:
  "trace (atWait fl en cfg h) =
     [EvGoBackend, EvMakeHost (cancelledBy en BeforeMakeHost) 0 (flagRelay fl),
      EvNewClient (cancelledBy en BeforeNewClient) cfg] @ hostLines h @ [EvNotify]"
  "defers (atWait fl en cfg h) = [DeferClose, DeferCancel]"
  "client (atWait fl en cfg h) = Some newSession"
  by (simp_all add: atWait_def atNewClient_fields)

lemma returnWith_fields:
  "ending (returnWith r st) = Returned r"
  "final (returnWith r st) =
     (fold runDeferred (defers st) (emit (EvReturn r) st))\<lparr>defers := []\<rparr>"
  by (simp_all add: returnWith_def)

lemma stage_world:
  "ctxDone (atMakeHost fl en) = cancelledBy en BeforeMakeHost"
  "backend (atMakeHost fl en) = backendAt en BeforeMakeHost"
  "backendLog (atMakeHost fl en) = backendLines fl en BeforeMakeHost"
  "ctxDone (atNewClient fl en cfg) = cancelledBy en BeforeNewClient"
  "backend (atNewClient fl en cfg) = backendAt en BeforeNewClient"
  "backendLog (atNewClient fl en cfg) = backendLines fl en BeforeNewClient"
  "ctxDone (atWait fl en cfg h) = cancelledBy en WhileWaiting"
  "backend (atWait fl en cfg h) = backendAt en WhileWaiting"
  "backendLog (atWait fl en cfg h) = backendLines fl en WhileWaiting"
  using inWorld_atMakeHost[of fl en] inWorld_atNewClient[of fl en cfg]
    inWorld_atWait[of fl en cfg h]
  by (simp_all add: inWorld_def)

lemma cancelledBy_waiting:
  "listenAndServe en = Some (mf, e) \<Longrightarrow> startedBy en mf \<Longrightarrow> cancelledBy en WhileWaiting"
  using upTo_cases(3) by (simp add: cancelledBy_def del: upTo.simps)

lemma startedBy_mono:
  "startedBy en m \<Longrightarrow> startedBy en WhileWaiting"
  using upTo_cases(3)
  by (cases "backendStart en") (simp_all add: startedBy_def del: upTo.simps)

text \<open>What the sample worlds answer.\<close>

lemma sample_answers:
  "backendStart calmEnv = Some BeforeMakeHost" "listenAndServe calmEnv = None"
  "MakeHost calmEnv c p r = Inr sampleHost" "NewClient calmEnv c h cfg = None"
  "signalArrives calmEnv"
  "backendStart portTakenEnv = Some BeforeMakeHost"
  "listenAndServe portTakenEnv = Some (BeforeMakeHost, bindError)"
  "MakeHost portTakenEnv c p r = Inr sampleHost" "NewClient portTakenEnv c h cfg = None"
  "\<not> signalArrives portTakenEnv"
  "MakeHost noHostEnv c p r = Inl (ErrMsg ''no transport'')"
  "backendStart noClientEnv = Some BeforeMakeHost" "listenAndServe noClientEnv = None"
  "MakeHost noClientEnv c p r = Inr sampleHost"
  "NewClient noClientEnv c h cfg = Some (ErrMsg ''join topic'')"
  "backendStart refusingEnv = Some BeforeMakeHost"
  "listenAndServe refusingEnv = Some (BeforeMakeHost, bindError)"
  "MakeHost refusingEnv c p r = Inr sampleHost"
  "NewClient refusingEnv c h cfg = (if c then Some (ErrMsg ''context canceled'') else None)"
  "\<not> signalArrives refusingEnv"
  "backendStart refusingHostEnv = Some BeforeMakeHost"
  "listenAndServe refusingHostEnv = Some (BeforeMakeHost, bindError)"
  "MakeHost refusingHostEnv c p r =
     (if c then Inl (ErrMsg ''context canceled'') else Inr sampleHost)"
  by (simp_all add: calmEnv_def portTakenEnv_def noHostEnv_def noClientEnv_def refusingEnv_def
      refusingHostEnv_def)

lemma sample_cancelled:
  "cancelledBy portTakenEnv m" "cancelledBy refusingEnv m" "cancelledBy refusingHostEnv m"
  "\<not> cancelledBy calmEnv m" "\<not> cancelledBy noClientEnv m" "\<not> cancelledBy noHostEnv m"
  by (cases m; simp add: cancelledBy_def startedBy_def sample_answers noHostEnv_def calmEnv_def)+

subsection \<open>Construction failures\<close>

text \<open>
  Claim C3. When the creation of the overlay host fails, \<open>runClient\<close> returns that error
  wrapped with \<open>make host\<close>; when the construction of the client fails, it returns that
  error wrapped with \<open>new client\<close>. In both cases the process logs the error through
  \<open>log.Fatal\<close> and exits with status 1, and there is no client, so nothing advertises.
\<close>

theorem runClient_construction_failure:
  "(MakeHost en (cancelledBy en BeforeMakeHost) 0 (flagRelay (parseFlags args)) = Inl e \<longrightarrow>
      ending (runClient (parseFlags args) en) = Returned (Some (Errorf ''make host: '' e)) \<and>
      errorString (Errorf ''make host: '' e) = ''make host: '' @ errorString e \<and>
      snd (main args en) = Some 1 \<and>
      client (final (fst (main args en))) = None \<and>
      \<not> advertising (final (fst (main args en))) \<and>
      trace (final (fst (main args en))) =
        [EvGoBackend, EvMakeHost (cancelledBy en BeforeMakeHost) 0 (flagRelay (parseFlags args)),
         EvReturn (Some (Errorf ''make host: '' e)), EvCancel,
         EvLogFatal (Errorf ''make host: '' e) ''execute root command'']) \<and>
   (MakeHost en (cancelledBy en BeforeMakeHost) 0 (flagRelay (parseFlags args)) = Inr h \<and>
    clientConfig (parseFlags args) = Some cfg \<and>
    NewClient en (cancelledBy en BeforeNewClient) h cfg = Some e \<longrightarrow>
      ending (runClient (parseFlags args) en) = Returned (Some (Errorf ''new client: '' e)) \<and>
      errorString (Errorf ''new client: '' e) = ''new client: '' @ errorString e \<and>
      snd (main args en) = Some 1 \<and>
      client (final (fst (main args en))) = None \<and>
      \<not> advertising (final (fst (main args en))) \<and>
      trace (final (fst (main args en))) =
        [EvGoBackend, EvMakeHost (cancelledBy en BeforeMakeHost) 0 (flagRelay (parseFlags args)),
         EvNewClient (cancelledBy en BeforeNewClient) cfg,
         EvReturn (Some (Errorf ''new client: '' e)), EvCancel,
         EvLogFatal (Errorf ''new client: '' e) ''execute root command''])"
proof (intro conjI impI)
  assume a: "MakeHost en (cancelledBy en BeforeMakeHost) 0 (flagRelay (parseFlags args)) = Inl e"
  note r = runClient_host_fails[OF a]
  show "ending (runClient (parseFlags args) en) = Returned (Some (Errorf ''make host: '' e))"
    by (simp add: r returnWith_fields)
  show "errorString (Errorf ''make host: '' e) = ''make host: '' @ errorString e"
    by simp
  show "snd (main args en) = Some 1"
    by (simp add: main_def r returnWith_fields)
  show "client (final (fst (main args en))) = None"
    by (simp add: main_def r returnWith_fields atMakeHost_fields)
  then show "\<not> advertising (final (fst (main args en)))"
    by (rule advertising_no_client)
  show "trace (final (fst (main args en))) =
        [EvGoBackend, EvMakeHost (cancelledBy en BeforeMakeHost) 0 (flagRelay (parseFlags args)),
         EvReturn (Some (Errorf ''make host: '' e)), EvCancel,
         EvLogFatal (Errorf ''make host: '' e) ''execute root command'']"
    by (simp add: main_def r returnWith_fields atMakeHost_fields)
next
  assume "MakeHost en (cancelledBy en BeforeMakeHost) 0 (flagRelay (parseFlags args)) = Inr h \<and>
    clientConfig (parseFlags args) = Some cfg \<and>
    NewClient en (cancelledBy en BeforeNewClient) h cfg = Some e"
  then have r: "runClient (parseFlags args) en =
      returnWith (Some (Errorf ''new client: '' e)) (atNewClient (parseFlags args) en cfg)"
    using runClient_client_fails by blast
  show "ending (runClient (parseFlags args) en) = Returned (Some (Errorf ''new client: '' e))"
    by (simp add: r returnWith_fields)
  show "errorString (Errorf ''new client: '' e) = ''new client: '' @ errorString e"
    by simp
  show "snd (main args en) = Some 1"
    by (simp add: main_def r returnWith_fields)
  show "client (final (fst (main args en))) = None"
    by (simp add: main_def r returnWith_fields atNewClient_fields)
  then show "\<not> advertising (final (fst (main args en)))"
    by (rule advertising_no_client)
  show "trace (final (fst (main args en))) =
        [EvGoBackend, EvMakeHost (cancelledBy en BeforeMakeHost) 0 (flagRelay (parseFlags args)),
         EvNewClient (cancelledBy en BeforeNewClient) cfg,
         EvReturn (Some (Errorf ''new client: '' e)), EvCancel,
         EvLogFatal (Errorf ''new client: '' e) ''execute root command'']"
    by (simp add: main_def r returnWith_fields atNewClient_fields)
qed

theorem runClient_construction_failure_witness:
  "ending (runClient (parseFlags []) noHostEnv) =
     Returned (Some (Errorf ''make host: '' (ErrMsg ''no transport''))) \<and>
   snd (main [] noHostEnv) = Some 1 \<and>
   client (final (fst (main [] noHostEnv))) = None \<and>
   ending (runClient (parseFlags []) noClientEnv) =
     Returned (Some (Errorf ''new client: '' (ErrMsg ''join topic''))) \<and>
   snd (main [] noClientEnv) = Some 1 \<and>
   client (final (fst (main [] noClientEnv))) = None"
  using
    runClient_construction_failure[where en = noHostEnv and args = "[]"
      and e = "ErrMsg ''no transport''"]
    runClient_construction_failure[where en = noClientEnv and args = "[]"
      and h = sampleHost and e = "ErrMsg ''join topic''"]
    clientConfig_default
  by (simp add: sample_answers)

subsection \<open>Waiting, shutting down, and a backend that fails\<close>

text \<open>
  Claim C5. In every run in which the host and the client are constructed, \<open>Close\<close> is not
  called before the wait for the termination signal has returned; when the signal arrives,
  what follows is the log line, the sleep of 200 milliseconds, the \<open>return\<close>, and only then
  the deferred \<open>Close\<close> and the deferred \<open>cancel\<close>; when no signal arrives, \<open>runClient\<close>
  does not return and \<open>Close\<close> is never called.
\<close>

theorem Close_only_after_signal:
  assumes "MakeHost en (cancelledBy en BeforeMakeHost) 0 (flagRelay fl) = Inr h"
    and "clientConfig fl = Some cfg"
    and "NewClient en (cancelledBy en BeforeNewClient) h cfg = None"
  shows "EvClose \<notin> set (takeWhile (\<lambda>e. e \<noteq> EvSignal) (trace (final (runClient fl en)))) \<and>
    (signalArrives en \<longrightarrow>
       ending (runClient fl en) = Returned None \<and>
       dropWhile (\<lambda>e. e \<noteq> EvSignal) (trace (final (runClient fl en))) =
         [EvSignal, EvLogInfo ''[client] shutting down'', EvSleep (200 * Millisecond),
          EvReturn None, EvClose, EvCancel]) \<and>
    (\<not> signalArrives en \<longrightarrow>
       ending (runClient fl en) = Blocked \<and>
       EvClose \<notin> set (trace (final (runClient fl en))))"
proof (cases "signalArrives en")
  case True
  then have r: "runClient fl en =
      returnWith None
        (emit (EvSleep (200 * Millisecond))
           (emit (EvLogInfo ''[client] shutting down'') (emit EvSignal (atWait fl en cfg h))))"
    using runClient_advertising[OF assms] by simp
  have t: "trace (final (runClient fl en)) =
      [EvGoBackend, EvMakeHost (cancelledBy en BeforeMakeHost) 0 (flagRelay fl),
       EvNewClient (cancelledBy en BeforeNewClient) cfg] @ hostLines h @
      [EvNotify, EvSignal, EvLogInfo ''[client] shutting down'', EvSleep (200 * Millisecond),
       EvReturn None, EvClose, EvCancel]"
    by (simp add: r returnWith_fields atWait_fields)
  have e: "ending (runClient fl en) = Returned None"
    by (simp add: r returnWith_fields)
  show ?thesis
    using True e
    by (simp add: t takeWhile_hostLines dropWhile_hostLines hostLines_no_close)
next
  case False
  then have r: "runClient fl en = blockForever (atWait fl en cfg h)"
    using runClient_advertising[OF assms] by simp
  have t: "trace (final (runClient fl en)) =
      [EvGoBackend, EvMakeHost (cancelledBy en BeforeMakeHost) 0 (flagRelay fl),
       EvNewClient (cancelledBy en BeforeNewClient) cfg] @ hostLines h @ [EvNotify]"
    by (simp add: r blockForever_def atWait_fields)
  have "EvClose \<notin> set (trace (final (runClient fl en)))"
    by (simp add: t hostLines_no_close)
  moreover have "ending (runClient fl en) = Blocked"
    by (simp add: r blockForever_def)
  ultimately show ?thesis
    using False by (auto dest: set_takeWhileD)
qed

theorem Close_only_after_signal_witness:
  "ending (runClient (parseFlags []) calmEnv) = Returned None \<and>
   dropWhile (\<lambda>e. e \<noteq> EvSignal) (trace (final (runClient (parseFlags []) calmEnv))) =
     [EvSignal, EvLogInfo ''[client] shutting down'', EvSleep 200000000, EvReturn None,
      EvClose, EvCancel]"
  using Close_only_after_signal[where en = calmEnv and fl = "parseFlags []" and h = sampleHost]
    clientConfig_default
  by (simp add: sample_answers Millisecond_def)

text \<open>
  Claim C9, as amended. When the backend goroutine has called \<open>ListenAndServe\<close> and the
  call returns its error, the goroutine logs the error and cancels the root context, and
  that is all it does. If \<open>MakeHost\<close> and \<open>NewClient\<close> succeed all the same (they may be
  given the cancelled context) and no signal is delivered, \<open>runClient\<close> does not return:
  the process stays alive, waiting for a termination signal, while the backend goroutine
  has ended and, in the spec's model of the missing client, nothing advertises. If
  \<open>MakeHost\<close> or \<open>NewClient\<close> fails instead, \<open>runClient\<close> returns that error wrapped and the
  process exits with status 1.
\<close>

theorem backend_failure_only_cancels:
  assumes "listenAndServe en = Some (mf, e)" and "startedBy en mf"
  shows
   "(MakeHost en (cancelledBy en BeforeMakeHost) 0 (flagRelay (parseFlags args)) = Inr h \<and>
     clientConfig (parseFlags args) = Some cfg \<and>
     NewClient en (cancelledBy en BeforeNewClient) h cfg = None \<and>
     \<not> signalArrives en \<longrightarrow>
       ending (runClient (parseFlags args) en) = Blocked \<and>
       snd (main args en) = None \<and>
       ctxDone (final (runClient (parseFlags args) en)) \<and>
       backend (final (runClient (parseFlags args) en)) = Ended \<and>
       \<not> backendServing (final (runClient (parseFlags args) en)) \<and>
       \<not> advertising (final (runClient (parseFlags args) en)) \<and>
       backendLog (final (runClient (parseFlags args) en)) =
         [EvLogInfo (''[client] local backend http '' @ flagBackendHTTP (parseFlags args)),
          EvListenAndServe (flagBackendHTTP (parseFlags args)),
          EvLogError e ''[client] http backend error'', EvCancel]) \<and>
    (MakeHost en (cancelledBy en BeforeMakeHost) 0 (flagRelay (parseFlags args)) = Inl e' \<longrightarrow>
       ending (runClient (parseFlags args) en) = Returned (Some (Errorf ''make host: '' e')) \<and>
       snd (main args en) = Some 1) \<and>
    (MakeHost en (cancelledBy en BeforeMakeHost) 0 (flagRelay (parseFlags args)) = Inr h \<and>
     clientConfig (parseFlags args) = Some cfg \<and>
     NewClient en (cancelledBy en BeforeNewClient) h cfg = Some e' \<longrightarrow>
       ending (runClient (parseFlags args) en) = Returned (Some (Errorf ''new client: '' e')) \<and>
       snd (main args en) = Some 1)"
proof (intro conjI impI)
  assume a: "MakeHost en (cancelledBy en BeforeMakeHost) 0 (flagRelay (parseFlags args)) = Inr h \<and>
     clientConfig (parseFlags args) = Some cfg \<and>
     NewClient en (cancelledBy en BeforeNewClient) h cfg = None \<and> \<not> signalArrives en"
  then have r: "runClient (parseFlags args) en = blockForever (atWait (parseFlags args) en cfg h)"
    using runClient_advertising[of en "parseFlags args" h cfg] by simp
  have c: "cancelledBy en WhileWaiting"
    using assms by (rule cancelledBy_waiting)
  have s: "startedBy en WhileWaiting"
    using assms(2) by (rule startedBy_mono)
  show "ending (runClient (parseFlags args) en) = Blocked"
    by (simp add: r blockForever_def)
  then show "snd (main args en) = None"
    by (simp add: main_def)
  show d: "ctxDone (final (runClient (parseFlags args) en))"
    using c by (simp add: r blockForever_def stage_world)
  show b: "backend (final (runClient (parseFlags args) en)) = Ended"
    using c by (simp add: r blockForever_def stage_world backendAt_def)
  show "\<not> backendServing (final (runClient (parseFlags args) en))"
    using b by (simp add: backendServing_def)
  show "\<not> advertising (final (runClient (parseFlags args) en))"
    using d by (rule advertising_cancelled)
  show "backendLog (final (runClient (parseFlags args) en)) =
         [EvLogInfo (''[client] local backend http '' @ flagBackendHTTP (parseFlags args)),
          EvListenAndServe (flagBackendHTTP (parseFlags args)),
          EvLogError e ''[client] http backend error'', EvCancel]"
    using c s assms(1) by (simp add: r blockForever_def stage_world backendLines_def)
next
  assume a: "MakeHost en (cancelledBy en BeforeMakeHost) 0 (flagRelay (parseFlags args)) = Inl e'"
  note r = runClient_host_fails[OF a]
  show "ending (runClient (parseFlags args) en) = Returned (Some (Errorf ''make host: '' e'))"
    by (simp add: r returnWith_fields)
  then show "snd (main args en) = Some 1"
    by (simp add: main_def Let_def)
next
  assume "MakeHost en (cancelledBy en BeforeMakeHost) 0 (flagRelay (parseFlags args)) = Inr h \<and>
     clientConfig (parseFlags args) = Some cfg \<and>
     NewClient en (cancelledBy en BeforeNewClient) h cfg = Some e'"
  then have r: "runClient (parseFlags args) en =
      returnWith (Some (Errorf ''new client: '' e')) (atNewClient (parseFlags args) en cfg)"
    using runClient_client_fails by blast
  show "ending (runClient (parseFlags args) en) = Returned (Some (Errorf ''new client: '' e'))"
    by (simp add: r returnWith_fields)
  then show "snd (main args en) = Some 1"
    by (simp add: main_def Let_def)
qed

theorem backend_failure_only_cancels_witness:
  "ending (runClient (parseFlags []) portTakenEnv) = Blocked \<and>
   snd (main [] portTakenEnv) = None \<and>
   ctxDone (final (runClient (parseFlags []) portTakenEnv)) \<and>
   \<not> backendServing (final (runClient (parseFlags []) portTakenEnv)) \<and>
   \<not> advertising (final (runClient (parseFlags []) portTakenEnv)) \<and>
   snd (main [] refusingHostEnv) = Some 1 \<and>
   snd (main [] refusingEnv) = Some 1"
proof -
  have s: "startedBy portTakenEnv BeforeMakeHost" "startedBy refusingHostEnv BeforeMakeHost"
    "startedBy refusingEnv BeforeMakeHost"
    by (simp_all add: startedBy_def sample_answers)
  show ?thesis
    using
      backend_failure_only_cancels[where en = portTakenEnv and args = "[]" and h = sampleHost
        and mf = BeforeMakeHost and e = bindError, OF _ s(1)]
      backend_failure_only_cancels[where en = refusingHostEnv and args = "[]"
        and mf = BeforeMakeHost and e = bindError and e' = "ErrMsg ''context canceled''",
        OF _ s(2)]
      backend_failure_only_cancels[where en = refusingEnv and args = "[]" and h = sampleHost
        and mf = BeforeMakeHost and e = bindError and e' = "ErrMsg ''context canceled''",
        OF _ s(3)]
      clientConfig_default
    by (simp add: sample_answers sample_cancelled)
qed

text \<open>
  The claim as stated (after a failure of the backend \<open>runClient\<close> does not return and the
  process stays alive) fails when the port is taken and the library refuses a cancelled
  context: with no signal delivered, \<open>runClient\<close> returns the error of \<open>NewClient\<close> and the
  process exits with status 1.
\<close>

theorem backend_failure_returns_counterexample:
  "listenAndServe refusingEnv = Some (BeforeMakeHost, bindError) \<and>
   \<not> signalArrives refusingEnv \<and>
   backend (final (runClient (parseFlags []) refusingEnv)) = Ended \<and>
   ctxDone (final (runClient (parseFlags []) refusingEnv)) \<and>
   ending (runClient (parseFlags []) refusingEnv) =
     Returned (Some (Errorf ''new client: '' (ErrMsg ''context canceled''))) \<and>
   snd (main [] refusingEnv) = Some 1"
  by (simp add: main_def parseFlags_def runClient_def refusingEnv_def portTakenEnv_def calmEnv_def
      initFlags_def clientConfig_def addrToTarget_def byteAt_def Let_def backendStep_def
      backendFail_def backendEnter_def returnWith_def initState_def)

text \<open>
  Claim C4, as amended. The cancellation of the root context does not reach the serving
  loop of the HTTP backend. Whenever \<open>runClient\<close> returns, the context is cancelled, the
  deferred \<open>cancel\<close> being the last step of \<open>runClient\<close>; yet a \<open>ListenAndServe\<close> that the
  backend goroutine has entered before \<open>MakeHost\<close> is called and that does not fail by
  itself is still serving at the end of every run, and the backend goroutine ends only
  when \<open>ListenAndServe\<close> returns an error of its own. The cancellation does reach the
  advertisement loop: in the spec's model of the missing client nothing advertises once
  the context is cancelled.
\<close>

theorem cancellation_skips_backend:
  "(ending (runClient fl en) \<noteq> Blocked \<longrightarrow>
      ctxDone (final (runClient fl en)) \<and> last (trace (final (runClient fl en))) = EvCancel) \<and>
   (backendStart en = Some BeforeMakeHost \<and> listenAndServe en = None \<longrightarrow>
      backendServing (final (runClient fl en))) \<and>
   (backend (final (runClient fl en)) = Ended \<longrightarrow> listenAndServe en \<noteq> None) \<and>
   (ctxDone (final (runClient fl en)) \<longrightarrow> \<not> advertising (final (runClient fl en)))"
proof -
  obtain cfg where cfg: "clientConfig fl = Some cfg"
    using clientConfig_some by blast
  have served: "backendStart en = Some BeforeMakeHost \<and> listenAndServe en = None \<Longrightarrow>
      backendAt en m = InListenAndServe" for m
    by (cases m) (simp_all add: backendAt_def cancelledBy_def startedBy_def)
  have ended: "backendAt en m = Ended \<Longrightarrow> listenAndServe en \<noteq> None" for m
    by (cases "listenAndServe en") (simp_all add: backendAt_def cancelledBy_def split: if_splits)
  show ?thesis
  proof (cases "MakeHost en (cancelledBy en BeforeMakeHost) 0 (flagRelay fl)")
    case (Inl e)
    have r: "runClient fl en = returnWith (Some (Errorf ''make host: '' e)) (atMakeHost fl en)"
      by (rule runClient_host_fails[OF Inl])
    have f: "ctxDone (final (runClient fl en))"
      "last (trace (final (runClient fl en))) = EvCancel"
      "backend (final (runClient fl en)) = backendAt en BeforeMakeHost"
      "ending (runClient fl en) \<noteq> Blocked"
      by (simp_all add: r returnWith_fields atMakeHost_fields stage_world)
    show ?thesis
      using f served ended advertising_cancelled by (auto simp add: backendServing_def)
  next
    case (Inr h)
    show ?thesis
    proof (cases "NewClient en (cancelledBy en BeforeNewClient) h cfg")
      case (Some e)
      have r: "runClient fl en =
          returnWith (Some (Errorf ''new client: '' e)) (atNewClient fl en cfg)"
        by (rule runClient_client_fails[OF Inr cfg Some])
      have f: "ctxDone (final (runClient fl en))"
        "last (trace (final (runClient fl en))) = EvCancel"
        "backend (final (runClient fl en)) = backendAt en BeforeNewClient"
        "ending (runClient fl en) \<noteq> Blocked"
        by (simp_all add: r returnWith_fields atNewClient_fields stage_world)
      show ?thesis
        using f served ended advertising_cancelled by (auto simp add: backendServing_def)
    next
      case None
      note r = runClient_advertising[OF Inr cfg None]
      show ?thesis
      proof (cases "signalArrives en")
        case True
        have f: "ctxDone (final (runClient fl en))"
          "last (trace (final (runClient fl en))) = EvCancel"
          "backend (final (runClient fl en)) = backendAt en WhileWaiting"
          "ending (runClient fl en) \<noteq> Blocked"
          using True by (simp_all add: r returnWith_fields atWait_fields stage_world)
        show ?thesis
          using f served ended advertising_cancelled by (auto simp add: backendServing_def)
      next
        case False
        have f: "backend (final (runClient fl en)) = backendAt en WhileWaiting"
          "ending (runClient fl en) = Blocked"
          using False by (simp_all add: r blockForever_def stage_world)
        show ?thesis
          using f served ended advertising_cancelled by (auto simp add: backendServing_def)
      qed
    qed
  qed
qed

theorem cancellation_skips_backend_witness:
  "ctxDone (final (runClient initFlags noClientEnv)) \<and>
   last (trace (final (runClient initFlags noClientEnv))) = EvCancel \<and>
   backendServing (final (runClient initFlags noClientEnv)) \<and>
   \<not> advertising (final (runClient initFlags noClientEnv)) \<and>
   listenAndServe portTakenEnv \<noteq> None"
proof -
  have a: "ending (runClient initFlags noClientEnv) \<noteq> Blocked"
    by (simp add: runClient_def noClientEnv_def calmEnv_def initFlags_def clientConfig_def
        addrToTarget_def byteAt_def Let_def returnWith_def)
  have b: "backend (final (runClient initFlags portTakenEnv)) = Ended"
    by (simp add: runClient_def portTakenEnv_def calmEnv_def initFlags_def clientConfig_def
        addrToTarget_def byteAt_def Let_def backendStep_def backendFail_def backendEnter_def
        blockForever_def initState_def)
  show ?thesis
    using a b cancellation_skips_backend[of initFlags noClientEnv]
      cancellation_skips_backend[of initFlags portTakenEnv]
    by (simp add: sample_answers)
qed

text \<open>
  The claim as stated (the cancellation reaches the serving loop of the HTTP backend too,
  which unwinds before the process exits) fails in the run where everything works and a
  signal arrives: \<open>runClient\<close> has returned, the process exits with status 0, the context
  is cancelled, and \<open>ListenAndServe\<close> is still serving.
\<close>

theorem backend_ignores_cancellation_counterexample:
  "ending (runClient initFlags calmEnv) = Returned None \<and>
   snd (main [] calmEnv) = Some 0 \<and>
   ctxDone (final (runClient initFlags calmEnv)) \<and>
   backendServing (final (runClient initFlags calmEnv))"
  by (simp add: main_def parseFlags_def runClient_def calmEnv_def initFlags_def clientConfig_def
      addrToTarget_def byteAt_def Let_def backendStep_def backendFail_def backendEnter_def
      returnWith_def initState_def backendServing_def)

end
